theory Spec2Isabelle
  imports
    Main
    "HOL-Library.Finite_Map"
    "HOL-Library.Word"
    "HOL-Library.Sublist"
    "HOL-Library.List_Lexorder"
    "HOL-Library.Char_ord"
begin

section \<open>Faults\<close>

text \<open>
  The seven variants of a node, as \<^verbatim>\<open>enum class NodeType\<close> of
  \<^verbatim>\<open>config-cpp/node.h\<close> lists them.
\<close>

datatype NodeType = Null | String | Boolean | Integer | Floating | Sequence | Object

text \<open>
  Every exception the modelled code can raise, by its C++ class and the argument its
  constructor is called with. \<^verbatim>\<open>NodeError\<close>, \<^verbatim>\<open>JsonFormat::ParseError\<close>,
  \<^verbatim>\<open>JsonFormat::DumpError\<close> and \<^verbatim>\<open>YamlFormat::ParseError\<close> derive from
  \<^verbatim>\<open>Config::Error\<close>. The two implementations of the JSON parser each declare a
  \<^verbatim>\<open>JsonFormat::ParseError\<close> of their own, and the two classes make different texts of
  their argument (\<open>ParseError_what\<close> below): \<open>JsonParseError\<close> is the class of
  \<^verbatim>\<open>config-cpp/format/json/parse.h\<close>, which \<^verbatim>\<open>sources/format/json/parse.cc\<close> throws,
  and \<open>JsonParseError_module\<close> the class of \<^verbatim>\<open>config/format/json/parse.h\<close>, which
  \<^verbatim>\<open>module/format/json/source/parse.cc\<close> throws. The \<^verbatim>\<open>NodeError\<close> that \<^verbatim>\<open>As<T>\<close> raises has the text
  \<^verbatim>\<open>"Conversion {} -> {} failed."\<close> over the node's \<^verbatim>\<open>TypeString()\<close> and the demangled
  name of the C++ type \<^verbatim>\<open>T\<close>; the demangled name depends on the platform, so that fault keeps
  the requested variant in its place. \<^verbatim>\<open>std::out_of_range\<close> comes from
  \<^verbatim>\<open>std::unordered_map::at\<close>, and \<^verbatim>\<open>YAML::Exception\<close> from yaml-cpp; neither is
  a \<^verbatim>\<open>Config::Error\<close>.
\<close>

datatype error =
    NodeError string
  | NodeError_Conversion string NodeType
  | StdOutOfRange
  | JsonParseError string
  | JsonParseError_module string
  | JsonDumpError string
  | YamlException string
  | YamlParseError string

text \<open>Whether the exception's class derives from \<^verbatim>\<open>Config::Error\<close>.\<close>

fun is_Config_Error :: "error \<Rightarrow> bool" where
  "is_Config_Error (NodeError _) = True"
| "is_Config_Error (NodeError_Conversion _ _) = True"
| "is_Config_Error StdOutOfRange = False"
| "is_Config_Error (JsonParseError _) = True"
| "is_Config_Error (JsonParseError_module _) = True"
| "is_Config_Error (JsonDumpError _) = True"
| "is_Config_Error (YamlException _) = False"
| "is_Config_Error (YamlParseError _) = True"

text \<open>Whether the exception is a \<^verbatim>\<open>NodeError\<close>.\<close>

fun is_NodeError :: "error \<Rightarrow> bool" where
  "is_NodeError (NodeError _) = True"
| "is_NodeError (NodeError_Conversion _ _) = True"
| "is_NodeError _ = False"

text \<open>Whether the exception is a \<^verbatim>\<open>JsonFormat::ParseError\<close>, of either implementation.\<close>

fun is_ParseError :: "error \<Rightarrow> bool" where
  "is_ParseError (JsonParseError _) = True"
| "is_ParseError (JsonParseError_module _) = True"
| "is_ParseError _ = False"

text \<open>
  \<^verbatim>\<open>Error::Namespace\<close> and \<^verbatim>\<open>Error::Message\<close> of \<^verbatim>\<open>config/core/error.h\<close>:
  \<^verbatim>\<open>std::format("{}::{}", prefix, message)\<close> and
  \<^verbatim>\<open>std::format("{}: {}", prefix, message)\<close>.
\<close>

definition Namespace :: "string \<Rightarrow> string \<Rightarrow> string" where
  "Namespace pre message = pre @ ''::'' @ message"

definition Message :: "string \<Rightarrow> string \<Rightarrow> string" where
  "Message pre message = pre @ '': '' @ message"

text \<open>
  The \<^verbatim>\<open>what()\<close> of a \<^verbatim>\<open>JsonFormat::ParseError\<close>. The class of
  \<^verbatim>\<open>config-cpp/format/json/parse.h\<close> inherits the constructor of \<^verbatim>\<open>Config::Error\<close>,
  which hands the argument to \<^verbatim>\<open>std::runtime_error\<close>. The class of
  \<^verbatim>\<open>config/format/json/parse.h\<close> passes \<^verbatim>\<open>Message("ParseError", message)\<close> to
  \<^verbatim>\<open>JsonError\<close>, that passes \<^verbatim>\<open>Namespace("JsonError", message)\<close> to
  \<^verbatim>\<open>Error\<close>, and that hands \<^verbatim>\<open>Namespace("Config", message)\<close> to
  \<^verbatim>\<open>std::runtime_error\<close>.
\<close>

fun ParseError_what :: "error \<Rightarrow> string option" where
  "ParseError_what (JsonParseError message) = Some message"
| "ParseError_what (JsonParseError_module message) =
     Some (Namespace ''Config'' (Namespace ''JsonError'' (Message ''ParseError'' message)))"
| "ParseError_what _ = None"

section \<open>The node\<close>

text \<open>
  \<^verbatim>\<open>Node::Floating\<close> is \<^verbatim>\<open>double\<close>. No operation on nodes computes with it, so a
  double is its 64-bit IEEE 754 pattern.
\<close>

datatype double = Double "64 word"

text \<open>
  \<^verbatim>\<open>Node::Value\<close> is a \<^verbatim>\<open>std::variant\<close> over \<^verbatim>\<open>std::monostate\<close>,
  \<^verbatim>\<open>std::string\<close>, \<^verbatim>\<open>bool\<close>, \<^verbatim>\<open>std::int64_t\<close>, \<^verbatim>\<open>double\<close>,
  \<^verbatim>\<open>std::vector<Node>\<close> and \<^verbatim>\<open>std::unordered_map<std::string, Node>\<close>. The map has
  unique keys and no order, so it is a finite map.
\<close>

datatype Node =
    NNull
  | NString string
  | NBoolean bool
  | NInteger "64 word"
  | NFloating double
  | NSequence "Node list"
  | NObject "(string, Node) fmap"

definition IsNull :: "Node \<Rightarrow> bool" where
  "IsNull self = (case self of NNull \<Rightarrow> True | _ \<Rightarrow> False)"

definition IsString :: "Node \<Rightarrow> bool" where
  "IsString self = (case self of NString _ \<Rightarrow> True | _ \<Rightarrow> False)"

definition IsBoolean :: "Node \<Rightarrow> bool" where
  "IsBoolean self = (case self of NBoolean _ \<Rightarrow> True | _ \<Rightarrow> False)"

definition IsInteger :: "Node \<Rightarrow> bool" where
  "IsInteger self = (case self of NInteger _ \<Rightarrow> True | _ \<Rightarrow> False)"

definition IsFloating :: "Node \<Rightarrow> bool" where
  "IsFloating self = (case self of NFloating _ \<Rightarrow> True | _ \<Rightarrow> False)"

definition IsSequence :: "Node \<Rightarrow> bool" where
  "IsSequence self = (case self of NSequence _ \<Rightarrow> True | _ \<Rightarrow> False)"

definition IsObject :: "Node \<Rightarrow> bool" where
  "IsObject self = (case self of NObject _ \<Rightarrow> True | _ \<Rightarrow> False)"

text \<open>\<^verbatim>\<open>Node::Type()\<close>: the chain of tests, and the throw that ends it.\<close>

definition Type :: "Node \<Rightarrow> error + NodeType" where
  "Type self =
     (if IsNull self then Inr Null
      else if IsString self then Inr String
      else if IsBoolean self then Inr Boolean
      else if IsInteger self then Inr Integer
      else if IsFloating self then Inr Floating
      else if IsSequence self then Inr Sequence
      else if IsObject self then Inr Object
      else Inl (NodeError ''Failed to determine node type.''))"

definition TypeString :: "Node \<Rightarrow> string" where
  "TypeString self =
     (if IsNull self then ''Null''
      else if IsString self then ''String''
      else if IsBoolean self then ''Boolean''
      else if IsInteger self then ''Integer''
      else if IsFloating self then ''Floating''
      else if IsSequence self then ''Sequence''
      else if IsObject self then ''Object''
      else ''Undefined'')"

text \<open>
  \<^verbatim>\<open>As<T>(self)\<close>: \<^verbatim>\<open>std::get<T>\<close> on the variant, and a \<^verbatim>\<open>NodeError\<close> when it
  holds another alternative.
\<close>

definition AsString :: "Node \<Rightarrow> error + string" where
  "AsString self =
     (case self of NString s \<Rightarrow> Inr s
      | _ \<Rightarrow> Inl (NodeError_Conversion (TypeString self) String))"

definition AsBoolean :: "Node \<Rightarrow> error + bool" where
  "AsBoolean self =
     (case self of NBoolean b \<Rightarrow> Inr b
      | _ \<Rightarrow> Inl (NodeError_Conversion (TypeString self) Boolean))"

definition AsInteger :: "Node \<Rightarrow> error + 64 word" where
  "AsInteger self =
     (case self of NInteger i \<Rightarrow> Inr i
      | _ \<Rightarrow> Inl (NodeError_Conversion (TypeString self) Integer))"

definition AsFloating :: "Node \<Rightarrow> error + double" where
  "AsFloating self =
     (case self of NFloating d \<Rightarrow> Inr d
      | _ \<Rightarrow> Inl (NodeError_Conversion (TypeString self) Floating))"

definition AsSequence :: "Node \<Rightarrow> error + Node list" where
  "AsSequence self =
     (case self of NSequence xs \<Rightarrow> Inr xs
      | _ \<Rightarrow> Inl (NodeError_Conversion (TypeString self) Sequence))"

definition AsObject :: "Node \<Rightarrow> error + (string, Node) fmap" where
  "AsObject self =
     (case self of NObject m \<Rightarrow> Inr m
      | _ \<Rightarrow> Inl (NodeError_Conversion (TypeString self) Object))"

subsection \<open>Subscript by field name\<close>

text \<open>
  A \<^verbatim>\<open>const char *\<close> is the characters before the first NUL. The overloads taking
  \<^verbatim>\<open>std::string\<close> and \<^verbatim>\<open>std::string_view\<close> pass \<^verbatim>\<open>field.data()\<close> on, so they
  see the field name the same way.
\<close>

definition c_str :: "string \<Rightarrow> string" where
  "c_str s = takeWhile (\<lambda>c. c \<noteq> CHR 0x00) s"

text \<open>
  The mutable \<^verbatim>\<open>Node::operator[](const char *field)\<close>. It returns a reference to a
  child and may change the node: the result is the outcome (the referenced child, or the
  fault) and the node afterwards. \<^verbatim>\<open>std::unordered_map::operator[]\<close> inserts a
  default-constructed node, which is \<^verbatim>\<open>Null\<close>, under an absent key.
\<close>

definition SubscriptField :: "Node \<Rightarrow> string \<Rightarrow> (error + Node) \<times> Node" where
  "SubscriptField self field =
     (if \<not> IsObject self \<and> \<not> IsNull self then
        (Inl (NodeError (''Cannot access field '' @ [CHR 0x27] @ field @ [CHR 0x27]
                          @ '' on non-object node.'')), self)
      else
        let self1 = (if IsNull self then NObject fmempty else self) in
        (case AsObject self1 of
           Inl e \<Rightarrow> (Inl e, self1)
         | Inr obj \<Rightarrow>
             (case fmlookup obj field of
                Some child \<Rightarrow> (Inr child, self1)
              | None \<Rightarrow> (Inr NNull, NObject (fmupd field NNull obj)))))"

definition SubscriptString :: "Node \<Rightarrow> string \<Rightarrow> (error + Node) \<times> Node" where
  "SubscriptString self field = SubscriptField self (c_str field)"

text \<open>
  What a write through the reference that \<^verbatim>\<open>operator[]\<close> returned does to the node the
  reference points into: the child under that field is replaced.
\<close>

definition StoreField :: "Node \<Rightarrow> string \<Rightarrow> Node \<Rightarrow> Node" where
  "StoreField self field child =
     (case self of NObject obj \<Rightarrow> NObject (fmupd field child obj) | _ \<Rightarrow> self)"

text \<open>
  The statement \<^verbatim>\<open>root[k1][k2]...[kn] = v\<close>: each subscript is applied to the child the
  previous one returned, the assignment replaces the last child's value, and every
  parent holds its changed child.
\<close>

fun AssignAt :: "Node \<Rightarrow> string list \<Rightarrow> Node \<Rightarrow> (error + unit) \<times> Node" where
  "AssignAt self [] v = (Inr (), v)"
| "AssignAt self (field # fields) v =
     (case SubscriptField self field of
        (Inl e, self') \<Rightarrow> (Inl e, self')
      | (Inr child, self') \<Rightarrow>
          (case AssignAt child fields v of
             (r, child') \<Rightarrow> (r, StoreField self' field child')))"

text \<open>
  The read-only \<^verbatim>\<open>Node::operator[](const char *field) const\<close>:
  \<^verbatim>\<open>AsObject().at(field)\<close>, whose \<^verbatim>\<open>at\<close> throws \<^verbatim>\<open>std::out_of_range\<close>.
\<close>

definition ConstSubscriptField :: "Node \<Rightarrow> string \<Rightarrow> error + Node" where
  "ConstSubscriptField self field =
     (case AsObject self of
        Inl e \<Rightarrow> Inl e
      | Inr obj \<Rightarrow>
          (case fmlookup obj field of
             None \<Rightarrow> Inl StdOutOfRange
           | Some child \<Rightarrow> Inr child))"

subsection \<open>Length, index, containment, append\<close>

text \<open>\<^verbatim>\<open>Node::Length()\<close>, a \<^verbatim>\<open>std::uint64_t\<close>.\<close>

definition Length :: "Node \<Rightarrow> error + 64 word" where
  "Length self =
     (if IsSequence self then
        (case AsSequence self of Inl e \<Rightarrow> Inl e | Inr xs \<Rightarrow> Inr (of_nat (length xs)))
      else if IsObject self then
        (case AsObject self of Inl e \<Rightarrow> Inl e | Inr obj \<Rightarrow> Inr (of_nat (size (fmdom obj))))
      else Inr 0)"

text \<open>\<^verbatim>\<open>std::format("{}", n)\<close> for an unsigned integer: its decimal digits.\<close>

definition digit :: "nat \<Rightarrow> char" where
  "digit d = ''0123456789'' ! d"

fun decimal :: "nat \<Rightarrow> string" where
  "decimal n =
     (if n < 10 then [digit n]
      else decimal (n div 10) @ [digit (n mod 10)])"

definition IndexOutOfBounds :: "64 word \<Rightarrow> 64 word \<Rightarrow> string" where
  "IndexOutOfBounds index len =
     ''Index out of bounds'' @ [CHR 0x0A]
     @ ''Index  : '' @ decimal (unat index) @ ''        '' @ [CHR 0x0A]
     @ ''Length : '' @ decimal (unat len)"

text \<open>
  \<^verbatim>\<open>Node::SubscriptOperator(self, std::uint64_t index)\<close>. The const and the mutable
  instance reach the same element; the result is that element.
\<close>

definition SubscriptOperator :: "Node \<Rightarrow> 64 word \<Rightarrow> error + Node" where
  "SubscriptOperator self index =
     (if \<not> IsSequence self then
        Inl (NodeError ''Cannot access node. Node is not a sequence'')
      else
        (case Length self of
           Inl e \<Rightarrow> Inl e
         | Inr len \<Rightarrow>
             if index \<ge> len then Inl (NodeError (IndexOutOfBounds index len))
             else
               (case AsSequence self of
                  Inl e \<Rightarrow> Inl e
                | Inr xs \<Rightarrow> Inr (xs ! unat index))))"

text \<open>
  \<^verbatim>\<open>Node::operator[](int index)\<close>. An \<^verbatim>\<open>int\<close> is a 32-bit word read as two's
  complement (\<open>sint\<close>); it is converted to the \<^verbatim>\<open>std::uint64_t\<close> parameter of
  \<^verbatim>\<open>SubscriptOperator\<close>, which extends its sign.
\<close>

definition SubscriptIndex :: "Node \<Rightarrow> 32 word \<Rightarrow> error + Node" where
  "SubscriptIndex self index = SubscriptOperator self (scast index)"

text \<open>\<^verbatim>\<open>Node::Contains(const char *field)\<close>.\<close>

definition Contains :: "Node \<Rightarrow> string \<Rightarrow> error + bool" where
  "Contains self field =
     (if \<not> IsObject self then Inr False
      else
        (case AsObject self of
           Inl e \<Rightarrow> Inl e
         | Inr obj \<Rightarrow> Inr ((if field |\<in>| fmdom obj then 1 else 0 :: nat) > 0)))"

text \<open>
  \<^verbatim>\<open>Node::Push(const Node &node)\<close>: the outcome and the node afterwards. The node
  pushed is an object other than the node it is pushed to.
\<close>

definition Push :: "Node \<Rightarrow> Node \<Rightarrow> (error + unit) \<times> Node" where
  "Push self node =
     (if \<not> IsSequence self \<and> \<not> IsNull self then
        (Inl (NodeError ''Cannot push to non-sequence node.''), self)
      else
        let self1 = (if IsNull self then NSequence [] else self) in
        (case AsSequence self1 of
           Inl e \<Rightarrow> (Inl e, self1)
         | Inr xs \<Rightarrow> (Inr (), NSequence (xs @ [node]))))"

subsection \<open>Conversion to a C++ type\<close>

text \<open>
  The C++ types \<^verbatim>\<open>T\<close> that \<^verbatim>\<open>Is<T>\<close>, \<^verbatim>\<open>To<T>\<close> and \<^verbatim>\<open>ValueOr<T>\<close> are
  instantiated with, by the trait of \<^verbatim>\<open>node.h\<close> that selects their branch:
  \<^verbatim>\<open>trait::IsString\<close> (\<^verbatim>\<open>std::string\<close>, \<^verbatim>\<open>std::string_view\<close>, \<^verbatim>\<open>const char *\<close>),
  \<^verbatim>\<open>trait::IsBoolean\<close> (\<^verbatim>\<open>bool\<close>), \<^verbatim>\<open>trait::IsInteger\<close> (an integral type other than
  \<^verbatim>\<open>bool\<close>, given by its width in bits and whether it is signed),
  \<^verbatim>\<open>trait::IsFloating\<close> (\<^verbatim>\<open>double\<close>), \<^verbatim>\<open>trait::IsSequence\<close>, \<^verbatim>\<open>trait::IsObject\<close>, and
  a type for which none of them holds. A value of such a type follows.
\<close>

datatype CppType =
  T_String | T_Boolean | T_Integer nat bool | T_Floating | T_Sequence | T_Object | T_Other

datatype 'u CppValue =
    V_String string
  | V_Boolean bool
  | V_Integer int
  | V_Floating double
  | V_Sequence "Node list"
  | V_Object "(string, Node) fmap"
  | V_Other 'u

text \<open>\<^verbatim>\<open>Node::Is<T>()\<close>: the first trait that holds for \<^verbatim>\<open>T\<close> decides.\<close>

fun Is :: "CppType \<Rightarrow> Node \<Rightarrow> bool" where
  "Is T_String self = IsString self"
| "Is T_Boolean self = IsBoolean self"
| "Is (T_Integer w sg) self = IsInteger self"
| "Is T_Floating self = IsFloating self"
| "Is T_Sequence self = IsSequence self"
| "Is T_Object self = IsObject self"
| "Is T_Other self = False"

text \<open>
  The conversion of a \<^verbatim>\<open>std::int64_t\<close> to an integral type of \<open>w\<close> bits: the value
  modulo \<open>2 ^ w\<close>, read as two's complement when the type is signed.
\<close>

definition narrow :: "nat \<Rightarrow> bool \<Rightarrow> 64 word \<Rightarrow> int" where
  "narrow w sg i = (if sg then signed_take_bit (w - 1) (sint i) else take_bit w (sint i))"

text \<open>
  \<^verbatim>\<open>Node::To<T>()\<close>: each overload returns what the accessor of its variant returns,
  converted to \<^verbatim>\<open>T\<close>; for a type with a \<^verbatim>\<open>FromConfig\<close> converter it returns what the
  converter (\<open>conv\<close>) makes of the node.
\<close>

fun To :: "(Node \<Rightarrow> error + 'u) \<Rightarrow> CppType \<Rightarrow> Node \<Rightarrow> error + 'u CppValue" where
  "To conv T_String self = (case AsString self of Inl e \<Rightarrow> Inl e | Inr s \<Rightarrow> Inr (V_String s))"
| "To conv T_Boolean self = (case AsBoolean self of Inl e \<Rightarrow> Inl e | Inr b \<Rightarrow> Inr (V_Boolean b))"
| "To conv (T_Integer w sg) self =
     (case AsInteger self of Inl e \<Rightarrow> Inl e | Inr i \<Rightarrow> Inr (V_Integer (narrow w sg i)))"
| "To conv T_Floating self = (case AsFloating self of Inl e \<Rightarrow> Inl e | Inr d \<Rightarrow> Inr (V_Floating d))"
| "To conv T_Sequence self = (case AsSequence self of Inl e \<Rightarrow> Inl e | Inr xs \<Rightarrow> Inr (V_Sequence xs))"
| "To conv T_Object self = (case AsObject self of Inl e \<Rightarrow> Inl e | Inr m \<Rightarrow> Inr (V_Object m))"
| "To conv T_Other self = (case conv self of Inl e \<Rightarrow> Inl e | Inr u \<Rightarrow> Inr (V_Other u))"

text \<open>
  \<^verbatim>\<open>Node::ValueOr<T>(value)\<close> chooses its branch with
  \<^verbatim>\<open>if constexpr (Is<T>())\<close>. The condition of an \<^verbatim>\<open>if constexpr\<close> is evaluated when the
  template is instantiated, where there is no node to look at. For a type that one of the
  traits holds for, \<^verbatim>\<open>Is<T>()\<close> calls \<^verbatim>\<open>IsString()\<close>, ..., \<^verbatim>\<open>IsObject()\<close>: none of
  them is declared \<^verbatim>\<open>constexpr\<close>, and each reads the variant of the node, so the condition
  is no constant expression and the instantiation is ill-formed. For any other type
  \<^verbatim>\<open>Is<T>()\<close> is the constant \<^verbatim>\<open>false\<close>.

  \<open>Is_constant T\<close> is the value of \<^verbatim>\<open>Is<T>()\<close> as a constant expression, \<open>None\<close> when
  it is not one; \<open>ValueOr conv T\<close> is the function the instantiation at \<^verbatim>\<open>T\<close> defines,
  \<open>None\<close> when the instantiation is ill-formed.
\<close>

fun Is_constant :: "CppType \<Rightarrow> bool option" where
  "Is_constant T_Other = Some False"
| "Is_constant _ = None"

definition ValueOr ::
  "(Node \<Rightarrow> error + 'u) \<Rightarrow> CppType \<Rightarrow> (Node \<Rightarrow> 'u CppValue \<Rightarrow> error + 'u CppValue) option" where
  "ValueOr conv T =
     (case Is_constant T of
        None \<Rightarrow> None
      | Some c \<Rightarrow> Some (\<lambda>self v. if c then To conv T self else Inr v))"

text \<open>
  What the documentation of \<^verbatim>\<open>ValueOr\<close> describes: the same two branches, chosen by
  the variant the node holds when the function is called.
\<close>

definition ValueOr_documented ::
  "(Node \<Rightarrow> error + 'u) \<Rightarrow> CppType \<Rightarrow> Node \<Rightarrow> 'u CppValue \<Rightarrow> error + 'u CppValue" where
  "ValueOr_documented conv T self v = (if Is T self then To conv T self else Inr v)"

section \<open>The JSON codec\<close>

text \<open>
  A value of \<^verbatim>\<open>nlohmann::json\<close>, by its \<^verbatim>\<open>value_t\<close>. An object is a
  \<^verbatim>\<open>std::map\<close>: its entries in the order of their keys, which is the order
  \<^verbatim>\<open>items()\<close> walks them in.
\<close>

datatype json =
    JNull
  | JString string
  | JBoolean bool
  | JNumberInteger "64 word"
  | JNumberUnsigned "64 word"
  | JNumberFloat double
  | JArray "json list"
  | JObject "(string \<times> json) list"
  | JBinary
  | JDiscarded

text \<open>The number \<^verbatim>\<open>nlohmann::detail::value_t\<close> gives each type.\<close>

fun value_t :: "json \<Rightarrow> nat" where
  "value_t JNull = 0"
| "value_t (JObject _) = 1"
| "value_t (JArray _) = 2"
| "value_t (JString _) = 3"
| "value_t (JBoolean _) = 4"
| "value_t (JNumberInteger _) = 5"
| "value_t (JNumberUnsigned _) = 6"
| "value_t (JNumberFloat _) = 7"
| "value_t JBinary = 8"
| "value_t JDiscarded = 9"

subsection \<open>Parse\<close>

text \<open>
  \<^verbatim>\<open>Convert\<close> of \<^verbatim>\<open>module/format/json/source/parse.cc\<close>. \<^verbatim>\<open>ConvertSequence\<close> and
  \<^verbatim>\<open>ConvertObject\<close> start from a default-constructed node and loop over the elements:
  the loops carry the node built so far. In \<^verbatim>\<open>output[field] = Convert(element)\<close> the
  right-hand side is evaluated first, and \<^verbatim>\<open>field\<close> is a \<^verbatim>\<open>std::string\<close>, so the
  subscript is the overload that passes \<^verbatim>\<open>field.data()\<close> on.
\<close>

fun Convert :: "json \<Rightarrow> error + Node"
  and ConvertSequence :: "json list \<Rightarrow> Node \<Rightarrow> error + Node"
  and ConvertObject :: "(string \<times> json) list \<Rightarrow> Node \<Rightarrow> error + Node" where
  "Convert JNull = Inr NNull"
| "Convert (JString s) = Inr (NString s)"
| "Convert (JBoolean b) = Inr (NBoolean b)"
| "Convert (JNumberInteger i) = Inr (NInteger i)"
| "Convert (JNumberUnsigned u) = Inr (NInteger u)"
| "Convert (JNumberFloat d) = Inr (NFloating d)"
| "Convert (JArray elements) = ConvertSequence elements NNull"
| "Convert (JObject entries) = ConvertObject entries NNull"
| "Convert JBinary = Inr NNull"
| "Convert JDiscarded = Inr NNull"
| "ConvertSequence [] output = Inr output"
| "ConvertSequence (element # elements) output =
     (case Convert element of
        Inl e \<Rightarrow> Inl e
      | Inr node \<Rightarrow>
          (case Push output node of
             (Inl e, _) \<Rightarrow> Inl e
           | (Inr _, output') \<Rightarrow> ConvertSequence elements output'))"
| "ConvertObject [] output = Inr output"
| "ConvertObject ((field, element) # entries) output =
     (case Convert element of
        Inl e \<Rightarrow> Inl e
      | Inr node \<Rightarrow>
          (case SubscriptString output field of
             (Inl e, _) \<Rightarrow> Inl e
           | (Inr _, output') \<Rightarrow>
               ConvertObject entries (StoreField output' (c_str field) node)))"

text \<open>
  \<^verbatim>\<open>Parse\<close> of the same file. \<open>parse\<close> stands for \<^verbatim>\<open>nlohmann::json::parse\<close>: the
  value it reads from the text, or the \<^verbatim>\<open>what()\<close> of the \<^verbatim>\<open>json::exception\<close> it
  throws. The handler throws the \<^verbatim>\<open>ParseError\<close> of \<^verbatim>\<open>config/format/json/parse.h\<close>
  over that text.
\<close>

definition Parse :: "(string \<Rightarrow> string + json) \<Rightarrow> string \<Rightarrow> error + Node" where
  "Parse parse content =
     (case parse content of
        Inl what \<Rightarrow> Inl (JsonParseError_module what)
      | Inr input \<Rightarrow> Convert input)"

text \<open>
  \<^verbatim>\<open>Convert\<close> and \<^verbatim>\<open>Parse\<close> of \<^verbatim>\<open>sources/format/json/parse.cc\<close>, the second
  implementation: the same functions but for the default branch of the switch, which
  throws, and for the \<^verbatim>\<open>ParseError\<close> they throw, which is the class of
  \<^verbatim>\<open>config-cpp/format/json/parse.h\<close>.
\<close>

fun Convert_sources :: "json \<Rightarrow> error + Node"
  and ConvertSequence_sources :: "json list \<Rightarrow> Node \<Rightarrow> error + Node"
  and ConvertObject_sources :: "(string \<times> json) list \<Rightarrow> Node \<Rightarrow> error + Node" where
  "Convert_sources JNull = Inr NNull"
| "Convert_sources (JString s) = Inr (NString s)"
| "Convert_sources (JBoolean b) = Inr (NBoolean b)"
| "Convert_sources (JNumberInteger i) = Inr (NInteger i)"
| "Convert_sources (JNumberUnsigned u) = Inr (NInteger u)"
| "Convert_sources (JNumberFloat d) = Inr (NFloating d)"
| "Convert_sources (JArray elements) = ConvertSequence_sources elements NNull"
| "Convert_sources (JObject entries) = ConvertObject_sources entries NNull"
| "Convert_sources JBinary =
     Inl (JsonParseError (''Undefined JsonType ('' @ decimal (value_t JBinary) @ '')''))"
| "Convert_sources JDiscarded =
     Inl (JsonParseError (''Undefined JsonType ('' @ decimal (value_t JDiscarded) @ '')''))"
| "ConvertSequence_sources [] output = Inr output"
| "ConvertSequence_sources (element # elements) output =
     (case Convert_sources element of
        Inl e \<Rightarrow> Inl e
      | Inr node \<Rightarrow>
          (case Push output node of
             (Inl e, _) \<Rightarrow> Inl e
           | (Inr _, output') \<Rightarrow> ConvertSequence_sources elements output'))"
| "ConvertObject_sources [] output = Inr output"
| "ConvertObject_sources ((field, element) # entries) output =
     (case Convert_sources element of
        Inl e \<Rightarrow> Inl e
      | Inr node \<Rightarrow>
          (case SubscriptString output field of
             (Inl e, _) \<Rightarrow> Inl e
           | (Inr _, output') \<Rightarrow>
               ConvertObject_sources entries (StoreField output' (c_str field) node)))"

definition Parse_sources :: "(string \<Rightarrow> string + json) \<Rightarrow> string \<Rightarrow> error + Node" where
  "Parse_sources parse content =
     (case parse content of
        Inl what \<Rightarrow> Inl (JsonParseError what)
      | Inr input \<Rightarrow> Convert_sources input)"

subsection \<open>Dump\<close>

text \<open>
  \<^verbatim>\<open>output[field] = value\<close> on a JSON object: the entry under the key is replaced, or a
  new one takes its place in the order of the keys.
\<close>

fun object_assign :: "(string \<times> json) list \<Rightarrow> string \<Rightarrow> json \<Rightarrow> (string \<times> json) list" where
  "object_assign [] field v = [(field, v)]"
| "object_assign ((k, w) # entries) field v =
     (if field = k then (k, v) # entries
      else if field < k then (field, v) # (k, w) # entries
      else (k, w) # object_assign entries field v)"

text \<open>
  The loops of \<^verbatim>\<open>ConvertSequence\<close> and \<^verbatim>\<open>ConvertObject\<close> of
  \<^verbatim>\<open>module/format/json/source/dump.cc\<close>, over the converted elements: the first one
  that threw ends the loop.
\<close>

fun ConvertSequence_dump :: "(error + json) list \<Rightarrow> json list \<Rightarrow> error + json" where
  "ConvertSequence_dump [] output = Inr (JArray output)"
| "ConvertSequence_dump (Inl e # elements) output = Inl e"
| "ConvertSequence_dump (Inr v # elements) output = ConvertSequence_dump elements (output @ [v])"

fun ConvertObject_dump ::
  "(string \<times> (error + json)) list \<Rightarrow> (string \<times> json) list \<Rightarrow> error + json" where
  "ConvertObject_dump [] output = Inr (JObject output)"
| "ConvertObject_dump ((field, Inl e) # entries) output = Inl e"
| "ConvertObject_dump ((field, Inr v) # entries) output =
     ConvertObject_dump entries (object_assign output field v)"

text \<open>
  \<^verbatim>\<open>Convert\<close> of \<^verbatim>\<open>dump.cc\<close>. The switch on \<^verbatim>\<open>node.Type()\<close> is the case
  distinction on the variant; its default branch is for a value outside the
  enumeration. The entries of the \<^verbatim>\<open>std::unordered_map\<close> are walked in an order the
  container chooses, here the order of the keys.
\<close>

primrec Convert_dump :: "Node \<Rightarrow> error + json" where
  "Convert_dump NNull = Inr JNull"
| "Convert_dump (NString s) =
     (case AsString (NString s) of Inl e \<Rightarrow> Inl e | Inr v \<Rightarrow> Inr (JString v))"
| "Convert_dump (NBoolean b) =
     (case AsBoolean (NBoolean b) of Inl e \<Rightarrow> Inl e | Inr v \<Rightarrow> Inr (JBoolean v))"
| "Convert_dump (NInteger i) =
     (case AsInteger (NInteger i) of Inl e \<Rightarrow> Inl e | Inr v \<Rightarrow> Inr (JNumberInteger v))"
| "Convert_dump (NFloating d) =
     (case AsFloating (NFloating d) of Inl e \<Rightarrow> Inl e | Inr v \<Rightarrow> Inr (JNumberFloat v))"
| "Convert_dump (NSequence elements) = ConvertSequence_dump (map Convert_dump elements) []"
| "Convert_dump (NObject entries) =
     ConvertObject_dump (sorted_list_of_fmap (fmmap Convert_dump entries)) []"

text \<open>
  \<^verbatim>\<open>Dump\<close>. \<open>dump\<close> stands for \<^verbatim>\<open>nlohmann::json::dump(4)\<close>: the text, or the
  \<^verbatim>\<open>what()\<close> of the \<^verbatim>\<open>json::exception\<close> it throws.
\<close>

definition Dump :: "(json \<Rightarrow> string + string) \<Rightarrow> Node \<Rightarrow> error + string" where
  "Dump dump node =
     (case Convert_dump node of
        Inl e \<Rightarrow> Inl e
      | Inr output \<Rightarrow>
          (case dump output of
             Inl what \<Rightarrow> Inl (JsonDumpError what)
           | Inr text \<Rightarrow> Inr text))"

section \<open>The YAML codec\<close>

text \<open>
  A \<^verbatim>\<open>YAML::Node\<close> of yaml-cpp, by its \<^verbatim>\<open>YAML::NodeType\<close>. A scalar is its text;
  the keys of a map are nodes.
\<close>

datatype yaml =
    YUndefined
  | YNull
  | YScalar string
  | YSequence "yaml list"
  | YMap "(yaml \<times> yaml) list"

text \<open>
  yaml-cpp's conversions \<^verbatim>\<open>YAML::Node::as<T>()\<close> at the four types the codec asks
  for: the converted value, or the \<^verbatim>\<open>what()\<close> of the \<^verbatim>\<open>YAML::BadConversion\<close>
  thrown.
\<close>

record yaml_cpp =
  as_String :: "yaml \<Rightarrow> string + string"
  as_Integer :: "yaml \<Rightarrow> string + 64 word"
  as_Floating :: "yaml \<Rightarrow> string + double"
  as_Boolean :: "yaml \<Rightarrow> string + bool"

text \<open>
  \<^verbatim>\<open>ConvertScalar\<close> of \<^verbatim>\<open>module/format/yaml/source/parse.cc\<close>: the nested
  \<^verbatim>\<open>try\<close> blocks, each entered when the conversion before it threw
  \<^verbatim>\<open>YAML::BadConversion\<close>. The last conversion is outside any of them.
\<close>

definition ConvertScalar :: "yaml_cpp \<Rightarrow> yaml \<Rightarrow> error + Node" where
  "ConvertScalar lib input =
     (case as_String lib input of
        Inr s \<Rightarrow> Inr (NString s)
      | Inl _ \<Rightarrow>
          (case as_Integer lib input of
             Inr i \<Rightarrow> Inr (NInteger i)
           | Inl _ \<Rightarrow>
               (case as_Floating lib input of
                  Inr d \<Rightarrow> Inr (NFloating d)
                | Inl _ \<Rightarrow>
                    (case as_Boolean lib input of
                       Inr b \<Rightarrow> Inr (NBoolean b)
                     | Inl what \<Rightarrow> Inl (YamlException what)))))"

text \<open>
  \<^verbatim>\<open>Convert\<close>, \<^verbatim>\<open>ConvertSequence\<close> and \<^verbatim>\<open>ConvertMap\<close> of the same file. In
  \<^verbatim>\<open>output[element.first.as<Node::String>()] = Convert(element.second)\<close> the right-hand
  side is evaluated first, then the key.
\<close>

fun Convert_yaml :: "yaml_cpp \<Rightarrow> yaml \<Rightarrow> error + Node"
  and ConvertSequence_yaml :: "yaml_cpp \<Rightarrow> yaml list \<Rightarrow> Node \<Rightarrow> error + Node"
  and ConvertMap :: "yaml_cpp \<Rightarrow> (yaml \<times> yaml) list \<Rightarrow> Node \<Rightarrow> error + Node" where
  "Convert_yaml lib YNull = Inr NNull"
| "Convert_yaml lib (YScalar s) = ConvertScalar lib (YScalar s)"
| "Convert_yaml lib (YSequence elements) = ConvertSequence_yaml lib elements NNull"
| "Convert_yaml lib (YMap entries) = ConvertMap lib entries NNull"
| "Convert_yaml lib YUndefined = Inl (YamlParseError ''UndefinedNodeType'')"
| "ConvertSequence_yaml lib [] output = Inr output"
| "ConvertSequence_yaml lib (element # elements) output =
     (case Convert_yaml lib element of
        Inl e \<Rightarrow> Inl e
      | Inr node \<Rightarrow>
          (case Push output node of
             (Inl e, _) \<Rightarrow> Inl e
           | (Inr _, output') \<Rightarrow> ConvertSequence_yaml lib elements output'))"
| "ConvertMap lib [] output = Inr output"
| "ConvertMap lib ((first, second) # entries) output =
     (case Convert_yaml lib second of
        Inl e \<Rightarrow> Inl e
      | Inr node \<Rightarrow>
          (case as_String lib first of
             Inl what \<Rightarrow> Inl (YamlException what)
           | Inr field \<Rightarrow>
               (case SubscriptString output field of
                  (Inl e, _) \<Rightarrow> Inl e
                | (Inr _, output') \<Rightarrow>
                    ConvertMap lib entries (StoreField output' (c_str field) node))))"

text \<open>
  \<^verbatim>\<open>Parse\<close> of the same file. \<open>load\<close> stands for \<^verbatim>\<open>YAML::Load\<close>: the document
  read from the text, or the \<^verbatim>\<open>what()\<close> of the \<^verbatim>\<open>YAML::Exception\<close> thrown. A
  \<^verbatim>\<open>YAML::Exception\<close> from \<^verbatim>\<open>Convert\<close> is caught by the same handler.
\<close>

definition Parse_yaml ::
  "yaml_cpp \<Rightarrow> (string \<Rightarrow> string + yaml) \<Rightarrow> string \<Rightarrow> error + Node" where
  "Parse_yaml lib load input =
     (case load input of
        Inl what \<Rightarrow> Inl (YamlParseError what)
      | Inr document \<Rightarrow>
          (case Convert_yaml lib document of
             Inl (YamlException what) \<Rightarrow> Inl (YamlParseError what)
           | Inl e \<Rightarrow> Inl e
           | Inr node \<Rightarrow> Inr node))"

section \<open>Inputs the properties speak about\<close>

text \<open>
  A JSON value built from null, strings, booleans, numbers, arrays and objects only:
  no part of it has the type \<^verbatim>\<open>binary\<close> or \<^verbatim>\<open>discarded\<close>. These are the values
  \<^verbatim>\<open>nlohmann::json::parse\<close> reads from a text.
\<close>

fun standard_json :: "json \<Rightarrow> bool"
  and standard_jsons :: "json list \<Rightarrow> bool"
  and standard_entries :: "(string \<times> json) list \<Rightarrow> bool" where
  "standard_json JBinary = False"
| "standard_json JDiscarded = False"
| "standard_json (JArray elements) = standard_jsons elements"
| "standard_json (JObject entries) = standard_entries entries"
| "standard_json _ = True"
| "standard_jsons [] = True"
| "standard_jsons (element # elements) = (standard_json element \<and> standard_jsons elements)"
| "standard_entries [] = True"
| "standard_entries ((field, element) # entries) =
     (standard_json element \<and> standard_entries entries)"

text \<open>The YAML document of three lines: \<^verbatim>\<open>ports:\<close>, \<^verbatim>\<open>  - 8080\<close>, \<^verbatim>\<open>  - 8081\<close>.\<close>

definition ports_document :: string where
  "ports_document = ''ports:'' @ [CHR 0x0A] @ ''  - 8080'' @ [CHR 0x0A] @ ''  - 8081''"

text \<open>
  A tree with no empty Sequence and no empty Object in it, and no NUL in a key of an
  Object.
\<close>

primrec plain_tree :: "Node \<Rightarrow> bool" where
  "plain_tree NNull = True"
| "plain_tree (NString s) = True"
| "plain_tree (NBoolean b) = True"
| "plain_tree (NInteger i) = True"
| "plain_tree (NFloating d) = True"
| "plain_tree (NSequence elements) =
     (elements \<noteq> [] \<and> list_all id (map plain_tree elements))"
| "plain_tree (NObject entries) =
     (entries \<noteq> fmempty \<and> fmpred (\<lambda>k ok. c_str k = k \<and> ok) (fmmap plain_tree entries))"

section \<open>Basic facts\<close>

lemmas Is_defs = IsNull_def IsString_def IsBoolean_def IsInteger_def IsFloating_def
  IsSequence_def IsObject_def

lemmas As_defs = AsString_def AsBoolean_def AsInteger_def AsFloating_def AsSequence_def
  AsObject_def

declare decimal.simps [simp del]

lemma Type_total:
  "Type self =
     Inr (case self of
            NNull \<Rightarrow> Null | NString _ \<Rightarrow> String | NBoolean _ \<Rightarrow> Boolean | NInteger _ \<Rightarrow> Integer
          | NFloating _ \<Rightarrow> Floating | NSequence _ \<Rightarrow> Sequence | NObject _ \<Rightarrow> Object)"
  by (cases self) (simp_all add: Type_def Is_defs)

lemma Push_Null: "Push NNull v = (Inr (), NSequence [v])"
  by (simp add: Push_def Is_defs AsSequence_def)

lemma Push_Sequence: "Push (NSequence xs) v = (Inr (), NSequence (xs @ [v]))"
  by (simp add: Push_def Is_defs AsSequence_def)

lemma Push_succeeds:
  "IsNull out \<or> IsSequence out \<Longrightarrow> \<exists>xs. Push out v = (Inr (), NSequence xs)"
  by (cases out) (simp_all add: Push_Null Push_Sequence Is_defs)

lemma SubscriptField_Null:
  "SubscriptField NNull k = (Inr NNull, NObject (fmupd k NNull fmempty))"
  by (simp add: SubscriptField_def Is_defs AsObject_def)

lemma SubscriptField_Object:
  "SubscriptField (NObject m) k =
     (case fmlookup m k of
        Some child \<Rightarrow> (Inr child, NObject m)
      | None \<Rightarrow> (Inr NNull, NObject (fmupd k NNull m)))"
  by (simp add: SubscriptField_def Is_defs AsObject_def)

lemma SubscriptString_succeeds:
  "IsNull out \<or> IsObject out \<Longrightarrow> \<exists>c m. SubscriptString out f = (Inr c, NObject m)"
  by (cases out; cases "fmlookup (case out of NObject m \<Rightarrow> m | _ \<Rightarrow> fmempty) (c_str f)")
     (simp_all add: SubscriptString_def SubscriptField_Null SubscriptField_Object Is_defs)

lemma Length_Sequence: "Length (NSequence xs) = Inr (of_nat (length xs))"
  by (simp add: Length_def Is_defs AsSequence_def)

lemma Length_Object: "Length (NObject m) = Inr (of_nat (size (fmdom m)))"
  by (simp add: Length_def Is_defs AsObject_def)

lemma Length_total: "\<exists>n. Length self = Inr n"
  by (cases self) (simp_all add: Length_def Is_defs As_defs)

lemma SubscriptOperator_Sequence:
  "SubscriptOperator (NSequence xs) i =
     (if i \<ge> of_nat (length xs)
      then Inl (NodeError (IndexOutOfBounds i (of_nat (length xs))))
      else Inr (xs ! unat i))"
  by (simp add: SubscriptOperator_def Length_Sequence Is_defs AsSequence_def)

lemma unat_of_nat_64: "n < 2 ^ 64 \<Longrightarrow> unat (of_nat n :: 64 word) = n"
  by (simp add: unat_of_nat)

lemma word_ge_of_nat_iff:
  assumes "n < 2 ^ 64"
  shows "((i :: 64 word) \<ge> of_nat n) = (n \<le> unat i)"
  using assms by (simp add: word_le_nat_alt unat_of_nat_64)

lemma uint_scast_32_64: "uint (scast (i :: 32 word) :: 64 word) = sint i mod 2 ^ 64"
proof -
  have "uint (scast i :: 64 word) = uint (word_of_int (sint i) :: 64 word)"
    by (simp only: scast_eq)
  also have "\<dots> = sint i mod 2 ^ 64"
    by (simp add: uint_word_of_int take_bit_eq_mod del: of_int_sint)
  finally show ?thesis .
qed

lemma unat_scast_negative:
  assumes "sint (i :: 32 word) < 0"
  shows "unat (scast i :: 64 word) = nat (2 ^ 64 + sint i)"
proof -
  have lo: "- (2 ^ 31) \<le> sint i" using sint_ge [of i] by simp
  have hi: "sint i + 2 ^ 64 < 2 ^ 64" using assms by simp
  have nn: "0 \<le> sint i + 2 ^ 64" using lo by simp
  have "uint (scast i :: 64 word) = (sint i + 2 ^ 64) mod 2 ^ 64"
    by (simp add: uint_scast_32_64)
  also have "\<dots> = sint i + 2 ^ 64" using hi nn by (rule_tac mod_pos_pos_trivial)
  also have "\<dots> = 2 ^ 64 + sint i" by simp
  finally show ?thesis by (simp add: unat_eq_nat_uint)
qed

lemma unat_scast_nonnegative:
  assumes "0 \<le> sint (i :: 32 word)"
  shows "unat (scast i :: 64 word) = nat (sint i)"
proof -
  have hi: "sint i < 2 ^ 31" using sint_lt [of i] by simp
  have "uint (scast i :: 64 word) = sint i mod 2 ^ 64"
    by (rule uint_scast_32_64)
  also have "\<dots> = sint i" using assms hi by (simp add: mod_pos_pos_trivial)
  finally show ?thesis by (simp add: unat_eq_nat_uint)
qed

lemma IndexOutOfBounds_mentions:
  "sublist (decimal (unat i)) (IndexOutOfBounds i len)
   \<and> sublist (decimal (unat len)) (IndexOutOfBounds i len)"
  unfolding IndexOutOfBounds_def sublist_def
  apply (rule conjI)
   apply (rule exI [of _ "''Index out of bounds'' @ [CHR 0x0A] @ ''Index  : ''"])
   apply (rule exI [of _ "''        '' @ [CHR 0x0A] @ ''Length : '' @ decimal (unat len)"])
   apply simp
  apply (rule exI [of _ "''Index out of bounds'' @ [CHR 0x0A] @ ''Index  : ''
                          @ decimal (unat i) @ ''        '' @ [CHR 0x0A] @ ''Length : ''"])
  apply (rule exI [of _ "[]"])
  apply simp
  done

lemma Contains_total:
  "Contains n k = Inr (case n of NObject m \<Rightarrow> k |\<in>| fmdom m | _ \<Rightarrow> False)"
  by (cases n) (simp_all add: Contains_def Is_defs AsObject_def)

lemma ValueOr_documented_total:
  "ValueOr_documented conv T n d = (if Is T n then To conv T n else Inr d)
   \<and> (\<exists>v. ValueOr_documented conv T n d = Inr v)"
  by (cases T; cases n) (simp_all add: ValueOr_documented_def Is_defs As_defs)

lemma ValueOr_Other: "ValueOr conv T_Other = Some (\<lambda>self v. Inr v)"
  by (simp add: ValueOr_def)

lemma sorted_list_of_fmap_empty:
  "sorted_list_of_fmap (fmempty :: (string, 'a) fmap) = []"
  by (simp add: sorted_list_of_fmap_def sorted_list_of_fset.rep_eq)

lemma Convert_sources_agree:
  "standard_json j \<Longrightarrow> Convert_sources j = Convert j"
  "standard_jsons js \<Longrightarrow> ConvertSequence_sources js out = ConvertSequence js out"
  "standard_entries es \<Longrightarrow> ConvertObject_sources es out = ConvertObject es out"
  by (induction j and js out and es out rule: Convert_ConvertSequence_ConvertObject.induct)
     (auto split: sum.splits prod.splits)

text \<open>
  The loops of \<^verbatim>\<open>Convert\<close> never fault: the node they carry is the fresh one or what
  \<^verbatim>\<open>Push\<close> or the subscript has made of it.
\<close>

lemma Convert_succeeds:
  "standard_json j \<Longrightarrow> \<exists>n. Convert j = Inr n"
  "standard_jsons js \<Longrightarrow> IsNull out \<or> IsSequence out \<Longrightarrow> \<exists>n. ConvertSequence js out = Inr n"
  "standard_entries es \<Longrightarrow> IsNull out \<or> IsObject out \<Longrightarrow> \<exists>n. ConvertObject es out = Inr n"
proof (induction j and js out and es out rule: Convert_ConvertSequence_ConvertObject.induct)
  case (12 element elements outp)
  then obtain node where n: "Convert element = Inr node" by auto
  obtain xs where p: "Push outp node = (Inr (), NSequence xs)"
    using Push_succeeds [OF 12(4)] by blast
  show ?case using 12 n p by (simp add: Is_defs)
next
  case (14 field element entries outp)
  then obtain node where n: "Convert element = Inr node" by auto
  obtain c m where p: "SubscriptString outp field = (Inr c, NObject m)"
    using SubscriptString_succeeds [OF 14(4)] by blast
  show ?case using 14 n p by (simp add: Is_defs StoreField_def)
qed (simp_all add: Is_defs)

section \<open>The JSON round trip away from the empty containers\<close>

text \<open>
  What \<^verbatim>\<open>Convert\<close> of \<^verbatim>\<open>dump.cc\<close> makes of a tree with no empty container and no
  NUL in a key, \<^verbatim>\<open>Convert\<close> of \<^verbatim>\<open>parse.cc\<close> turns back into the tree.
\<close>

lemma ConvertSequence_dump_all:
  "ConvertSequence_dump (map Inr js) acc = Inr (JArray (acc @ js))"
  by (induction js arbitrary: acc) simp_all

lemma ConvertSequence_all:
  "list_all2 (\<lambda>j x. Convert j = Inr x) js xs \<Longrightarrow>
   ConvertSequence js (NSequence acc) = Inr (NSequence (acc @ xs))"
  by (induction js xs arbitrary: acc rule: list_all2_induct) (simp_all add: Push_Sequence)

lemma ConvertSequence_fresh:
  assumes "list_all2 (\<lambda>j x. Convert j = Inr x) js xs" and "xs \<noteq> []"
  shows "ConvertSequence js NNull = Inr (NSequence xs)"
proof -
  obtain x xs' where xs: "xs = x # xs'" using assms(2) by (cases xs) auto
  obtain j js' where js: "js = j # js'" and j: "Convert j = Inr x"
    and rest: "list_all2 (\<lambda>j x. Convert j = Inr x) js' xs'"
    using assms(1) xs by (auto simp: list_all2_Cons2)
  show ?thesis using ConvertSequence_all [OF rest, of "[x]"] j
    by (simp add: js xs Push_Null)
qed

lemma standard_jsons_iff: "standard_jsons js = list_all standard_json js"
  by (induction js) simp_all

lemma standard_entries_iff: "standard_entries es = list_all (\<lambda>(k, j). standard_json j) es"
  by (induction es) auto

lemma object_assign_last:
  "\<forall>e \<in> set acc. fst e < k \<Longrightarrow> object_assign acc k v = acc @ [(k, v)]"
  by (induction acc) (auto)

lemma ConvertObject_dump_sorted:
  "sorted ks \<Longrightarrow> distinct ks \<Longrightarrow> \<forall>e \<in> set acc. \<forall>k \<in> set ks. fst e < k \<Longrightarrow>
   ConvertObject_dump (map (\<lambda>k. (k, Inr (h k))) ks) acc
     = Inr (JObject (acc @ map (\<lambda>k. (k, h k)) ks))"
proof (induction ks arbitrary: acc)
  case Nil
  then show ?case by simp
next
  case (Cons k ks)
  have a: "object_assign acc k (h k) = acc @ [(k, h k)]"
    using Cons.prems(3) by (intro object_assign_last) auto
  have b: "\<forall>e \<in> set (acc @ [(k, h k)]). \<forall>k' \<in> set ks. fst e < k'"
    using Cons.prems by (auto simp: less_le)
  show ?case using Cons.IH [OF _ _ b] Cons.prems(1,2) a by simp
qed

lemma StoreField_after_Subscript:
  "SubscriptString (NObject acc) k = (r, out') \<Longrightarrow>
   StoreField out' (c_str k) x = NObject (fmupd (c_str k) x acc)"
  by (auto simp: SubscriptString_def SubscriptField_Object StoreField_def split: option.splits)

lemma SubscriptString_Object_ok:
  "\<exists>c out'. SubscriptString (NObject acc) k = (Inr c, out')"
  by (auto simp: SubscriptString_def SubscriptField_Object split: option.splits)

lemma ConvertObject_all:
  "\<forall>k \<in> set ks. Convert (h k) = Inr (w k) \<and> c_str k = k \<Longrightarrow>
   ConvertObject (map (\<lambda>k. (k, h k)) ks) (NObject acc)
     = Inr (NObject (fold (\<lambda>k a. fmupd k (w k) a) ks acc))"
proof (induction ks arbitrary: acc)
  case Nil
  then show ?case by simp
next
  case (Cons k ks)
  obtain c out' where s: "SubscriptString (NObject acc) k = (Inr c, out')"
    using SubscriptString_Object_ok by blast
  have st: "StoreField out' (c_str k) (w k) = NObject (fmupd k (w k) acc)"
    using StoreField_after_Subscript [OF s] Cons.prems by simp
  show ?case using Cons s st by simp
qed

lemma ConvertObject_fresh:
  assumes "\<forall>k \<in> set ks. Convert (h k) = Inr (w k) \<and> c_str k = k" and "ks \<noteq> []"
  shows "ConvertObject (map (\<lambda>k. (k, h k)) ks) NNull
     = Inr (NObject (fold (\<lambda>k a. fmupd k (w k) a) ks fmempty))"
proof -
  obtain k ks' where ks: "ks = k # ks'" using assms(2) by (cases ks) auto
  have s: "SubscriptString NNull k = (Inr NNull, NObject (fmupd k NNull fmempty))"
    using assms(1) ks by (simp add: SubscriptString_def SubscriptField_Null)
  have rest: "\<forall>k \<in> set ks'. Convert (h k) = Inr (w k) \<and> c_str k = k"
    using assms(1) ks by simp
  show ?thesis using assms(1) ks s ConvertObject_all [OF rest]
    by (simp add: StoreField_def)
qed

lemma fmlookup_fold_fmupd:
  "fmlookup (fold (\<lambda>k a. fmupd k (w k) a) ks acc) k'
     = (if k' \<in> set ks then Some (w k') else fmlookup acc k')"
  by (induction ks arbitrary: acc) auto

lemma fold_fmupd_rebuilds:
  "fold (\<lambda>k a. fmupd k (the (fmlookup m k)) a) (sorted_list_of_fset (fmdom m)) fmempty = m"
proof (rule fmap_ext)
  fix k
  show "fmlookup (fold (\<lambda>k a. fmupd k (the (fmlookup m k)) a)
                   (sorted_list_of_fset (fmdom m)) fmempty) k = fmlookup m k"
  proof (cases "fmlookup m k")
    case None
    then have "k |\<notin>| fmdom m" by (simp add: fmdom_notI)
    then show ?thesis using None by (simp add: fmlookup_fold_fmupd)
  next
    case (Some v)
    then have "k |\<in>| fmdom m" by (simp add: fmdomI)
    then show ?thesis using Some by (simp add: fmlookup_fold_fmupd)
  qed
qed

lemma plain_tree_entry:
  assumes "plain_tree (NObject m)" and "fmlookup m k = Some v"
  shows "plain_tree v \<and> c_str k = k"
proof -
  have a: "fmpred (\<lambda>k ok. c_str k = k \<and> ok) (fmmap plain_tree m)"
    using assms(1) unfolding plain_tree.simps by (rule conjunct2)
  have b: "fmlookup (fmmap plain_tree m) k = Some (plain_tree v)"
    using assms(2) by simp
  show ?thesis using fmpredD [OF a b] by simp
qed

lemma plain_tree_nonempty:
  assumes "plain_tree (NObject m)"
  shows "sorted_list_of_fset (fmdom m) \<noteq> []"
proof
  assume e: "sorted_list_of_fset (fmdom m) = []"
  have "fset (fmdom m) = set (sorted_list_of_fset (fmdom m))" by simp
  then have d: "fset (fmdom m) = {}" unfolding e by simp
  have "m = fmempty"
  proof (rule fmap_ext)
    fix k
    have "k |\<notin>| fmdom m" using d by simp
    then show "fmlookup m k = fmlookup fmempty k" by (simp add: fmdom_notD)
  qed
  moreover have "m \<noteq> fmempty"
    using assms unfolding plain_tree.simps by (rule conjunct1)
  ultimately show False by simp
qed

lemma sorted_list_of_fmap_fmmap:
  "sorted_list_of_fmap (fmmap f m)
     = map (\<lambda>k. (k, f (the (fmlookup m k)))) (sorted_list_of_fset (fmdom m))"
proof -
  have "the (fmlookup (fmmap f m) k) = f (the (fmlookup m k))"
    if "k \<in> set (sorted_list_of_fset (fmdom m))" for k
  proof -
    have "k |\<in>| fmdom m" using that by simp
    then obtain v where "fmlookup m k = Some v" by (meson fmdomE)
    then show ?thesis by simp
  qed
  then show ?thesis unfolding sorted_list_of_fmap_def by simp
qed

lemma round_trip_plain_tree:
  "plain_tree n \<Longrightarrow> \<exists>j. Convert_dump n = Inr j \<and> standard_json j \<and> Convert j = Inr n"
proof (induction n)
  case (NSequence xs)
  define g where "g x = (SOME j. Convert_dump x = Inr j \<and> standard_json j \<and> Convert j = Inr x)" for x
  have ok: "plain_tree x" if "x \<in> set xs" for x
    using NSequence.prems that by (auto simp: list_all_iff)
  have g: "Convert_dump x = Inr (g x) \<and> standard_json (g x) \<and> Convert (g x) = Inr x"
    if "x \<in> set xs" for x
    unfolding g_def using NSequence.IH [OF that ok [OF that]] by (rule someI_ex)
  have m: "map Convert_dump xs = map Inr (map g xs)" using g by simp
  have d: "Convert_dump (NSequence xs) = Inr (JArray (map g xs))"
    by (simp add: m ConvertSequence_dump_all del: map_map)
  have l: "list_all2 (\<lambda>j x. Convert j = Inr x) (map g xs) xs"
    using g by (simp add: list_all2_conv_all_nth)
  have ne: "xs \<noteq> []" using NSequence.prems by simp
  have s: "standard_json (JArray (map g xs))"
    using g by (simp add: standard_jsons_iff list_all_iff)
  show ?case using d s ConvertSequence_fresh [OF l ne] by simp
next
  case (NObject m)
  define g where "g x = (SOME j. Convert_dump x = Inr j \<and> standard_json j \<and> Convert j = Inr x)" for x
  define h where "h k = g (the (fmlookup m k))" for k
  define ks where "ks = sorted_list_of_fset (fmdom m)"
  have inm: "\<exists>v. fmlookup m k = Some v" if "k \<in> set ks" for k
  proof -
    have "k |\<in>| fmdom m" using that by (simp add: ks_def)
    then show ?thesis by (meson fmdomE)
  qed
  have g: "Convert_dump v = Inr (g v) \<and> standard_json (g v) \<and> Convert (g v) = Inr v"
    if v: "fmlookup m k = Some v" for k v
  proof -
    have r: "v \<in> fmran' m" using v by (rule fmran'I)
    have pt: "plain_tree v" using plain_tree_entry [OF NObject.prems v] by simp
    show ?thesis unfolding g_def using NObject.IH [OF r pt] by (rule someI_ex)
  qed
  have hk: "Convert_dump (the (fmlookup m k)) = Inr (h k) \<and> standard_json (h k)
            \<and> Convert (h k) = Inr (the (fmlookup m k)) \<and> c_str k = k" if k: "k \<in> set ks" for k
  proof -
    obtain v where v: "fmlookup m k = Some v" using inm [OF k] by blast
    show ?thesis using g [OF v] plain_tree_entry [OF NObject.prems v] v by (simp add: h_def)
  qed
  have L: "sorted_list_of_fmap (fmmap Convert_dump m) = map (\<lambda>k. (k, Inr (h k))) ks"
    unfolding sorted_list_of_fmap_fmmap ks_def [symmetric] using hk by simp
  have srt: "sorted ks" "distinct ks"
    by (simp_all add: ks_def sorted_list_of_fset.rep_eq)
  have d: "Convert_dump (NObject m) = Inr (JObject (map (\<lambda>k. (k, h k)) ks))"
    using ConvertObject_dump_sorted [OF srt, of "[]" h] by (simp add: L)
  have s: "standard_json (JObject (map (\<lambda>k. (k, h k)) ks))"
    using hk by (simp add: standard_entries_iff list_all_iff)
  have c: "\<forall>k \<in> set ks. Convert (h k) = Inr (the (fmlookup m k)) \<and> c_str k = k"
    using hk by simp
  have ne: "ks \<noteq> []" unfolding ks_def using NObject.prems by (rule plain_tree_nonempty)
  have "Convert (JObject (map (\<lambda>k. (k, h k)) ks)) = Inr (NObject m)"
    using ConvertObject_fresh [OF c ne] by (simp add: ks_def fold_fmupd_rebuilds)
  then show ?case using d s by blast
qed (simp_all add: As_defs)

section \<open>Where the two JSON parsers differ\<close>

text \<open>
  On a value of the type \<^verbatim>\<open>binary\<close> or \<^verbatim>\<open>discarded\<close> the \<^verbatim>\<open>Convert\<close> of
  \<^verbatim>\<open>src/module\<close> returns the Null node and the one of \<^verbatim>\<open>src/sources\<close> throws.
\<close>

lemma Convert_default_branches_differ:
  "Convert JBinary = Inr NNull
   \<and> Convert_sources JBinary = Inl (JsonParseError ''Undefined JsonType (8)'')
   \<and> Convert JDiscarded = Inr NNull
   \<and> Convert_sources JDiscarded = Inl (JsonParseError ''Undefined JsonType (9)'')"
  by (simp add: decimal.simps digit_def)

text \<open>
  On a text the library rejects, each \<^verbatim>\<open>Parse\<close> throws its own \<^verbatim>\<open>ParseError\<close> over
  the library's diagnostic; the one of \<^verbatim>\<open>src/module\<close> puts
  \<^verbatim>\<open>Config::JsonError::ParseError: \<close> before it in \<^verbatim>\<open>what()\<close>.
\<close>

lemma Parse_rejected:
  assumes "parse content = Inl diagnostic"
  shows "Parse parse content = Inl (JsonParseError_module diagnostic)
         \<and> Parse_sources parse content = Inl (JsonParseError diagnostic)
         \<and> ParseError_what (JsonParseError_module diagnostic)
             = Some (''Config::JsonError::ParseError: '' @ diagnostic)
         \<and> ParseError_what (JsonParseError diagnostic) = Some diagnostic"
  using assms by (simp add: Parse_def Parse_sources_def Namespace_def Message_def)

section \<open>The claims\<close>

subsection \<open>C1: YAML scalars\<close>

text \<open>
  Claim C1 asks for a scalar that reads as an integer to become an Integer node, else a
  Floating node, else a Boolean node, else a String node, so that the document
  \<open>ports_document\<close> gives a Sequence of two Integer nodes. \<^verbatim>\<open>ConvertScalar\<close> asks
  yaml-cpp for the conversion to \<^verbatim>\<open>std::string\<close> first. That conversion returns the
  text of every scalar, so the three conversions in the handlers are never tried: every
  scalar becomes a String node, and the two ports are the String nodes \<open>''8080''\<close> and
  \<open>''8081''\<close>.
\<close>

theorem ConvertScalar_yields_String:
  assumes "\<And>s. as_String lib (YScalar s) = Inr s"
    and "load input =
           Inr (YMap [(YScalar ''ports'', YSequence [YScalar ''8080'', YScalar ''8081''])])"
  shows "ConvertScalar lib (YScalar s) = Inr (NString s)
         \<and> Parse_yaml lib load input =
             Inr (NObject (fmupd ''ports'' (NSequence [NString ''8080'', NString ''8081''])
                            fmempty))"
  using assms
  by (simp add: ConvertScalar_def Parse_yaml_def Push_Null Push_Sequence SubscriptString_def
      SubscriptField_Null c_str_def StoreField_def)

text \<open>
  C1, at a library whose integer conversion reads both ports: the ports are String
  nodes all the same.
\<close>

theorem ConvertScalar_yields_String_witness:
  "Parse_yaml
     \<lparr>as_String = (\<lambda>y. case y of YScalar s \<Rightarrow> Inr s | YNull \<Rightarrow> Inr ''null''
                              | _ \<Rightarrow> Inl ''bad conversion''),
      as_Integer = (\<lambda>y. if y = YScalar ''8080'' then Inr 8080
                         else if y = YScalar ''8081'' then Inr 8081
                         else Inl ''bad conversion''),
      as_Floating = (\<lambda>y. Inl ''bad conversion''),
      as_Boolean = (\<lambda>y. Inl ''bad conversion'')\<rparr>
     (\<lambda>input. Inr (YMap [(YScalar ''ports'', YSequence [YScalar ''8080'', YScalar ''8081''])]))
     ports_document
   = Inr (NObject (fmupd ''ports'' (NSequence [NString ''8080'', NString ''8081'']) fmempty))"
proof -
  let ?lib =
    "\<lparr>as_String = (\<lambda>y. case y of YScalar s \<Rightarrow> Inr s | YNull \<Rightarrow> Inr ''null''
                              | _ \<Rightarrow> Inl ''bad conversion''),
      as_Integer = (\<lambda>y. if y = YScalar ''8080'' then Inr 8080
                         else if y = YScalar ''8081'' then Inr 8081
                         else Inl ''bad conversion''),
      as_Floating = (\<lambda>y. Inl ''bad conversion''),
      as_Boolean = (\<lambda>y. Inl ''bad conversion'')\<rparr>"
  let ?load =
    "\<lambda>input :: string.
       (Inr (YMap [(YScalar ''ports'', YSequence [YScalar ''8080'', YScalar ''8081''])])
          :: string + yaml)"
  have h1: "\<And>s. as_String ?lib (YScalar s) = Inr s" by simp
  have h2: "?load ports_document =
           Inr (YMap [(YScalar ''ports'', YSequence [YScalar ''8080'', YScalar ''8081''])])"
    by simp
  show ?thesis
    using ConvertScalar_yields_String [of ?lib ?load ports_document, OF h1 h2] by simp
qed

subsection \<open>C2: the JSON round trip\<close>

text \<open>
  Claim C2 asks that \<^verbatim>\<open>Parse(Dump(n))\<close> rebuilds every tree \<open>n\<close>. For the empty
  Sequence, \<^verbatim>\<open>Dump\<close> writes the empty array; reading it back, \<^verbatim>\<open>ConvertSequence\<close>
  starts from a default-constructed node and never calls \<^verbatim>\<open>Push\<close>, so it returns the
  Null node. The empty Object comes back as the Null node the same way.
\<close>

theorem empty_containers_round_trip:
  assumes "dump (JArray []) = Inr text1" and "parse text1 = Inr (JArray [])"
    and "dump (JObject []) = Inr text2" and "parse text2 = Inr (JObject [])"
  shows "Dump dump (NSequence []) = Inr text1 \<and> Parse parse text1 = Inr NNull
         \<and> Dump dump (NObject fmempty) = Inr text2 \<and> Parse parse text2 = Inr NNull"
  using assms by (simp add: Dump_def Parse_def sorted_list_of_fmap_empty)

text \<open>C2, at a library that writes the two empty containers as \<open>[]\<close> and \<open>{}\<close>.\<close>

theorem empty_containers_round_trip_witness:
  "Dump (\<lambda>j. if j = JArray [] then Inr ''[]'' else Inr ''{}'') (NSequence []) = Inr ''[]''
   \<and> Parse (\<lambda>t. if t = ''[]'' then Inr (JArray []) else Inr (JObject [])) ''[]'' = Inr NNull
   \<and> Dump (\<lambda>j. if j = JArray [] then Inr ''[]'' else Inr ''{}'') (NObject fmempty) = Inr ''{}''
   \<and> Parse (\<lambda>t. if t = ''[]'' then Inr (JArray []) else Inr (JObject [])) ''{}'' = Inr NNull"
proof -
  let ?dump = "\<lambda>j. if j = JArray [] then Inr ''[]'' else (Inr ''{}'' :: string + string)"
  let ?parse = "\<lambda>t. if t = ''[]'' then Inr (JArray []) else (Inr (JObject []) :: string + json)"
  have h1: "?dump (JArray []) = Inr ''[]''" by simp
  have h2: "?parse ''[]'' = Inr (JArray [])" by simp
  have h3: "?dump (JObject []) = Inr ''{}''" by simp
  have h4: "?parse ''{}'' = Inr (JObject [])" by simp
  show ?thesis
    using empty_containers_round_trip [of ?dump "''[]''" ?parse "''{}''", OF h1 h2 h3 h4]
    by simp
qed

subsection \<open>C3: the read-only subscript by field name\<close>

text \<open>
  Claim C3, as stated, has the read-only subscript report an absent key through the
  library's own faults. It does not: on the empty Object the subscript raises
  \<^verbatim>\<open>std::out_of_range\<close>, which is no \<^verbatim>\<open>Config::Error\<close>.
\<close>

theorem missing_key_counterexample:
  "ConstSubscriptField (NObject fmempty) ''k'' = Inl StdOutOfRange
   \<and> is_Config_Error StdOutOfRange = False"
  by (simp add: ConstSubscriptField_def AsObject_def)

text \<open>
  C3, amended: on an Object the read-only subscript returns the child under the key,
  unchanged, and raises \<^verbatim>\<open>std::out_of_range\<close> when the key is absent, which is neither
  a \<^verbatim>\<open>NodeError\<close> nor a \<^verbatim>\<open>Config::Error\<close>; on every other variant it raises the
  \<^verbatim>\<open>NodeError\<close> of the failed conversion to Object.
\<close>

theorem ConstSubscriptField_contract:
  "ConstSubscriptField (NObject m) k =
     (case fmlookup m k of Some child \<Rightarrow> Inr child | None \<Rightarrow> Inl StdOutOfRange)
   \<and> is_NodeError StdOutOfRange = False
   \<and> is_Config_Error StdOutOfRange = False
   \<and> ConstSubscriptField NNull k = Inl (NodeError_Conversion ''Null'' Object)
   \<and> ConstSubscriptField (NString s) k = Inl (NodeError_Conversion ''String'' Object)
   \<and> ConstSubscriptField (NBoolean b) k = Inl (NodeError_Conversion ''Boolean'' Object)
   \<and> ConstSubscriptField (NInteger i) k = Inl (NodeError_Conversion ''Integer'' Object)
   \<and> ConstSubscriptField (NFloating d) k = Inl (NodeError_Conversion ''Floating'' Object)
   \<and> ConstSubscriptField (NSequence xs) k = Inl (NodeError_Conversion ''Sequence'' Object)"
  by (simp add: ConstSubscriptField_def AsObject_def TypeString_def Is_defs
      split: option.splits)

subsection \<open>C4: ValueOr and Contains\<close>

text \<open>
  Claim C4 asks that \<^verbatim>\<open>ValueOr<T>\<close> return the held value when the node holds the
  variant of \<^verbatim>\<open>T\<close> and the default otherwise, with \<^verbatim>\<open>Node(42).ValueOr<int>(0)\<close>
  being 42. The function's documentation says the same, and \<open>ValueOr_documented\<close> does
  it. The function itself chooses with \<^verbatim>\<open>if constexpr\<close>, when the template is
  instantiated: for \<^verbatim>\<open>int\<close> the condition is no constant expression, so there is no
  \<^verbatim>\<open>ValueOr<int>\<close> to call. (\<^verbatim>\<open>Contains\<close> does what the claim says: lemma
  \<open>Contains_total\<close>.)
\<close>

theorem ValueOr_int_ill_formed:
  "ValueOr conv (T_Integer 32 True) = None
   \<and> ValueOr_documented conv (T_Integer 32 True) (NString ''hi'') (V_Integer 42)
       = Inr (V_Integer 42)
   \<and> ValueOr_documented conv (T_Integer 32 True) (NInteger 42) (V_Integer 0)
       = Inr (V_Integer 42)"
  by (simp add: ValueOr_def ValueOr_documented_def Is_defs As_defs narrow_def)

subsection \<open>C5: the mutable subscript by field name\<close>

text \<open>
  Claim C5: the mutable subscript by a field name succeeds exactly on an Object and on
  Null. Null becomes an Object holding the one key, with a Null child; an Object gets
  the key, with a Null child, when it does not have it. On every other variant the
  subscript raises a \<^verbatim>\<open>NodeError\<close> and leaves the node as it was. So
  \<^verbatim>\<open>root["a"]["b"] = 1\<close> on a Null root gives the Object with \<open>a\<close> an Object with
  \<open>b\<close> the Integer 1, and \<^verbatim>\<open>Node(5)["x"]\<close> raises the \<^verbatim>\<open>NodeError\<close>.
\<close>

theorem SubscriptField_contract:
  "SubscriptField NNull k = (Inr NNull, NObject (fmupd k NNull fmempty))
   \<and> SubscriptField (NObject m) k =
       (case fmlookup m k of
          Some child \<Rightarrow> (Inr child, NObject m)
        | None \<Rightarrow> (Inr NNull, NObject (fmupd k NNull m)))
   \<and> ((\<exists>child self'. SubscriptField n k = (Inr child, self')) = (IsObject n \<or> IsNull n))
   \<and> ((SubscriptField n k
         = (Inl (NodeError (''Cannot access field '' @ [CHR 0x27] @ k @ [CHR 0x27]
                            @ '' on non-object node.'')), n))
        = (IsString n \<or> IsBoolean n \<or> IsInteger n \<or> IsFloating n \<or> IsSequence n))
   \<and> AssignAt NNull [''a'', ''b''] (NInteger 1)
       = (Inr (), NObject (fmupd ''a'' (NObject (fmupd ''b'' (NInteger 1) fmempty)) fmempty))
   \<and> SubscriptField (NInteger 5) ''x''
       = (Inl (NodeError (''Cannot access field '' @ [CHR 0x27] @ ''x'' @ [CHR 0x27]
                          @ '' on non-object node.'')), NInteger 5)"
proof (intro conjI)
  show "SubscriptField NNull k = (Inr NNull, NObject (fmupd k NNull fmempty))"
    by (rule SubscriptField_Null)
  show "SubscriptField (NObject m) k =
       (case fmlookup m k of
          Some child \<Rightarrow> (Inr child, NObject m)
        | None \<Rightarrow> (Inr NNull, NObject (fmupd k NNull m)))"
    by (rule SubscriptField_Object)
  show "(\<exists>child self'. SubscriptField n k = (Inr child, self')) = (IsObject n \<or> IsNull n)"
    by (cases n) (simp_all add: SubscriptField_def Is_defs AsObject_def split: option.splits)
  show "(SubscriptField n k
         = (Inl (NodeError (''Cannot access field '' @ [CHR 0x27] @ k @ [CHR 0x27]
                            @ '' on non-object node.'')), n))
        = (IsString n \<or> IsBoolean n \<or> IsInteger n \<or> IsFloating n \<or> IsSequence n)"
    by (cases n) (simp_all add: SubscriptField_def Is_defs AsObject_def split: option.splits)
  show "AssignAt NNull [''a'', ''b''] (NInteger 1)
       = (Inr (), NObject (fmupd ''a'' (NObject (fmupd ''b'' (NInteger 1) fmempty)) fmempty))"
    by (simp add: SubscriptField_Null StoreField_def)
  show "SubscriptField (NInteger 5) ''x''
       = (Inl (NodeError (''Cannot access field '' @ [CHR 0x27] @ ''x'' @ [CHR 0x27]
                          @ '' on non-object node.'')), NInteger 5)"
    by (simp add: SubscriptField_def Is_defs)
qed

subsection \<open>C6: Push\<close>

text \<open>
  Claim C6: \<^verbatim>\<open>Push\<close> appends to a Sequence; a Null node becomes the Sequence of the
  one pushed node; on a String, Boolean, Integer, Floating or Object node it raises a
  \<^verbatim>\<open>NodeError\<close> and leaves the node as it was.
\<close>

theorem Push_contract:
  "Push (NSequence xs) v = (Inr (), NSequence (xs @ [v]))
   \<and> Push NNull v = (Inr (), NSequence [v])
   \<and> Push (NString s) v = (Inl (NodeError ''Cannot push to non-sequence node.''), NString s)
   \<and> Push (NBoolean b) v = (Inl (NodeError ''Cannot push to non-sequence node.''), NBoolean b)
   \<and> Push (NInteger i) v = (Inl (NodeError ''Cannot push to non-sequence node.''), NInteger i)
   \<and> Push (NFloating d) v = (Inl (NodeError ''Cannot push to non-sequence node.''), NFloating d)
   \<and> Push (NObject m) v = (Inl (NodeError ''Cannot push to non-sequence node.''), NObject m)"
  by (simp add: Push_def Is_defs AsSequence_def)

subsection \<open>C7: the subscript by index\<close>

text \<open>
  Claim C7: on a Sequence, \<^verbatim>\<open>SubscriptOperator\<close> returns the element at the index when
  the index is below the length, and otherwise raises the \<^verbatim>\<open>NodeError\<close> whose message
  holds the decimal digits of the index and of the length; an element is read only at an
  index below the length. On every other variant it raises a \<^verbatim>\<open>NodeError\<close>. The
  public subscript by a non-negative \<^verbatim>\<open>int\<close> does the same. The length of a
  \<^verbatim>\<open>std::vector\<close> is a \<^verbatim>\<open>std::size_t\<close>, so it is below \<open>2 ^ 64\<close>.
\<close>

theorem SubscriptOperator_guarded:
  assumes "length xs < 2 ^ 64"
  shows "SubscriptOperator (NSequence xs) i =
           (if unat i < length xs then Inr (xs ! unat i)
            else Inl (NodeError (IndexOutOfBounds i (of_nat (length xs)))))
         \<and> sublist (decimal (unat i)) (IndexOutOfBounds i (of_nat (length xs)))
         \<and> sublist (decimal (length xs)) (IndexOutOfBounds i (of_nat (length xs)))
         \<and> (0 \<le> sint j \<longrightarrow>
              SubscriptIndex (NSequence xs) j =
                (if nat (sint j) < length xs then Inr (xs ! nat (sint j))
                 else Inl (NodeError (IndexOutOfBounds (scast j) (of_nat (length xs))))))
         \<and> SubscriptOperator NNull i
             = Inl (NodeError ''Cannot access node. Node is not a sequence'')
         \<and> SubscriptOperator (NString s) i
             = Inl (NodeError ''Cannot access node. Node is not a sequence'')
         \<and> SubscriptOperator (NBoolean b) i
             = Inl (NodeError ''Cannot access node. Node is not a sequence'')
         \<and> SubscriptOperator (NInteger k) i
             = Inl (NodeError ''Cannot access node. Node is not a sequence'')
         \<and> SubscriptOperator (NFloating d) i
             = Inl (NodeError ''Cannot access node. Node is not a sequence'')
         \<and> SubscriptOperator (NObject m) i
             = Inl (NodeError ''Cannot access node. Node is not a sequence'')"
proof -
  have a: "SubscriptOperator (NSequence xs) i' =
           (if unat i' < length xs then Inr (xs ! unat i')
            else Inl (NodeError (IndexOutOfBounds i' (of_nat (length xs)))))" for i'
    using assms by (auto simp add: SubscriptOperator_Sequence word_ge_of_nat_iff)
  have b: "sublist (decimal (unat i)) (IndexOutOfBounds i (of_nat (length xs)))"
    using IndexOutOfBounds_mentions by blast
  have c: "sublist (decimal (length xs)) (IndexOutOfBounds i (of_nat (length xs)))"
    using IndexOutOfBounds_mentions [of i "of_nat (length xs)"] assms
    by (simp add: unat_of_nat_64)
  have d: "0 \<le> sint j \<longrightarrow>
              SubscriptIndex (NSequence xs) j =
                (if nat (sint j) < length xs then Inr (xs ! nat (sint j))
                 else Inl (NodeError (IndexOutOfBounds (scast j) (of_nat (length xs)))))"
    by (simp add: SubscriptIndex_def a unat_scast_nonnegative)
  show ?thesis using a [of i] b c d by (simp add: SubscriptOperator_def Is_defs)
qed

text \<open>C7, on the Sequence of an Integer and a Null node, at the indices 1 and 2.\<close>

theorem SubscriptOperator_guarded_witness:
  "SubscriptOperator (NSequence [NInteger 7, NNull]) 1 = Inr NNull
   \<and> SubscriptOperator (NSequence [NInteger 7, NNull]) 2 =
       Inl (NodeError (''Index out of bounds'' @ [CHR 0x0A]
                       @ ''Index  : 2        '' @ [CHR 0x0A] @ ''Length : 2''))
   \<and> SubscriptIndex (NSequence [NInteger 7, NNull]) 1 = Inr NNull"
proof -
  have h: "length [NInteger 7, NNull] < (2::nat) ^ 64" by simp
  have d2: "decimal 2 = ''2''" by (simp add: decimal.simps digit_def)
  have s1: "0 \<le> sint (1 :: 32 word)" by simp
  show ?thesis
    using SubscriptOperator_guarded [OF h, of 1 1] SubscriptOperator_guarded [OF h, of 2 1] s1
    by (simp add: IndexOutOfBounds_def d2)
qed

subsection \<open>C8: the two JSON parsers\<close>

text \<open>
  Claim C8: for every input text, \<^verbatim>\<open>Parse\<close> of \<^verbatim>\<open>src/module\<close> and \<^verbatim>\<open>Parse\<close> of
  \<^verbatim>\<open>src/sources\<close> either both return a tree, and the two trees are equal, or both
  raise a \<^verbatim>\<open>ParseError\<close>. The JSON library rejects the text or reads from it a value
  with no part of the type \<^verbatim>\<open>binary\<close> or \<^verbatim>\<open>discarded\<close>, so the default branch of
  the switch, where the two \<^verbatim>\<open>Convert\<close> functions differ (lemma
  \<open>Convert_default_branches_differ\<close>), is not reached from a text. The two
  \<^verbatim>\<open>ParseError\<close> classes are raised over the same diagnostic of the library; their
  \<^verbatim>\<open>what()\<close> texts differ (lemma \<open>Parse_rejected\<close>).
\<close>

theorem Parse_implementations_agree:
  assumes "case parse content of Inl what \<Rightarrow> True | Inr input \<Rightarrow> standard_json input"
  shows "(case (Parse parse content, Parse_sources parse content) of
            (Inr node, Inr node') \<Rightarrow> node = node'
          | (Inl e, Inl e') \<Rightarrow> is_ParseError e \<and> is_ParseError e'
          | _ \<Rightarrow> False)"
proof (cases "parse content")
  case (Inl what)
  then show ?thesis by (simp add: Parse_def Parse_sources_def)
next
  case (Inr input)
  then have s: "standard_json input" using assms by simp
  obtain n where "Convert input = Inr n" using Convert_succeeds(1) [OF s] by blast
  then show ?thesis using Inr Convert_sources_agree(1) [OF s]
    by (simp add: Parse_def Parse_sources_def)
qed

text \<open>C8, at an array of a number and an object, and at a text the library rejects.\<close>

theorem Parse_implementations_agree_witness:
  "Parse_sources (\<lambda>content. Inr (JArray [JNumberUnsigned 1, JObject [(''a'', JNull)]]))
     (''[1, {'' @ [CHR 0x22] @ ''a'' @ [CHR 0x22] @ '': null}]'')
     = Inr (NSequence [NInteger 1, NObject (fmupd ''a'' NNull fmempty)])
   \<and> Parse (\<lambda>content. Inr (JArray [JNumberUnsigned 1, JObject [(''a'', JNull)]]))
     (''[1, {'' @ [CHR 0x22] @ ''a'' @ [CHR 0x22] @ '': null}]'')
     = Inr (NSequence [NInteger 1, NObject (fmupd ''a'' NNull fmempty)])
   \<and> Parse_sources (\<lambda>content. Inl ''syntax error'') ''[1,''
     = Inl (JsonParseError ''syntax error'')
   \<and> Parse (\<lambda>content. Inl ''syntax error'') ''[1,''
     = Inl (JsonParseError_module ''syntax error'')
   \<and> is_ParseError (JsonParseError ''syntax error'')
   \<and> is_ParseError (JsonParseError_module ''syntax error'')"
proof -
  let ?parse =
    "\<lambda>content :: string.
       (Inr (JArray [JNumberUnsigned 1, JObject [(''a'', JNull)]]) :: string + json)"
  let ?content = "''[1, {'' @ [CHR 0x22] @ ''a'' @ [CHR 0x22] @ '': null}]''"
  let ?reject = "\<lambda>content :: string. (Inl ''syntax error'' :: string + json)"
  have h: "case ?parse ?content of Inl what \<Rightarrow> True | Inr input \<Rightarrow> standard_json input"
    by simp
  have r: "case ?reject ''[1,'' of Inl what \<Rightarrow> True | Inr input \<Rightarrow> standard_json input"
    by simp
  have p: "Parse ?parse ?content
             = Inr (NSequence [NInteger 1, NObject (fmupd ''a'' NNull fmempty)])"
    by (simp add: Parse_def Push_Null Push_Sequence SubscriptString_def SubscriptField_Null
        c_str_def StoreField_def)
  have q: "Parse ?reject ''[1,'' = Inl (JsonParseError_module ''syntax error'')"
    by (simp add: Parse_def)
  have q': "Parse_sources ?reject ''[1,'' = Inl (JsonParseError ''syntax error'')"
    by (simp add: Parse_sources_def)
  have a: "Parse_sources ?parse ?content = Parse ?parse ?content"
    using h p Parse_implementations_agree [of ?parse ?content]
    by (cases "Parse_sources ?parse ?content") simp_all
  show ?thesis
    using a p q q' r Parse_implementations_agree [of ?reject "''[1,''"]
    by simp
qed

subsection \<open>C9: the mutable subscript inserts a Null child\<close>

text \<open>
  Claim C9: on an Object that does not have the key, the mutable subscript by a field
  name raises nothing; it returns a child that is Null and is the child under the key
  afterwards, and the Object's \<^verbatim>\<open>Length()\<close> is one more than it was.
\<close>

theorem SubscriptField_inserts_Null:
  assumes "fmlookup m k = None"
  shows "\<exists>child self'.
           SubscriptField (NObject m) k = (Inr child, self')
           \<and> IsNull child
           \<and> ConstSubscriptField self' k = Inr child
           \<and> Length (NObject m) = Inr (of_nat (size (fmdom m)))
           \<and> Length self' = Inr (of_nat (size (fmdom m)) + 1)
           \<and> Length self' = Inr (of_nat (size (fmdom m) + 1))"
proof -
  have "k |\<notin>| fmdom m" using assms by (simp add: fmdom_notI)
  then have "size (fmdom (fmupd k NNull m)) = size (fmdom m) + 1" by simp
  then show ?thesis using assms
    by (simp add: SubscriptField_Object Is_defs ConstSubscriptField_def AsObject_def
        Length_Object)
qed

text \<open>C9, on the Object with the one key \<open>a\<close>, subscripted by \<open>b\<close>.\<close>

theorem SubscriptField_inserts_Null_witness:
  "fmlookup (fmupd ''a'' (NInteger 1) fmempty) ''b'' = None
   \<and> SubscriptField (NObject (fmupd ''a'' (NInteger 1) fmempty)) ''b''
       = (Inr NNull, NObject (fmupd ''b'' NNull (fmupd ''a'' (NInteger 1) fmempty)))
   \<and> Length (NObject (fmupd ''a'' (NInteger 1) fmempty)) = Inr 1
   \<and> Length (NObject (fmupd ''b'' NNull (fmupd ''a'' (NInteger 1) fmempty))) = Inr 2"
proof -
  have h: "fmlookup (fmupd ''a'' (NInteger 1) fmempty) ''b'' = None" by simp
  show ?thesis using h SubscriptField_inserts_Null [OF h]
    by (simp add: SubscriptField_Object Length_Object)
qed

subsection \<open>C10: a negative index\<close>

text \<open>
  Claim C10: the public subscript takes an \<^verbatim>\<open>int\<close> and hands it to
  \<^verbatim>\<open>SubscriptOperator\<close> as a \<^verbatim>\<open>std::uint64_t\<close>. A negative index arrives there as a
  value of at least \<open>2 ^ 63\<close>, which is not below the length of any Sequence, so the
  subscript raises the out-of-bounds \<^verbatim>\<open>NodeError\<close> and reads no element. A
  \<^verbatim>\<open>std::vector\<close> of nodes has fewer than \<open>2 ^ 63\<close> elements.
\<close>

theorem negative_index_faults:
  assumes "sint i < 0" and "length xs < 2 ^ 63"
  shows "2 ^ 63 \<le> unat (scast i :: 64 word)
         \<and> SubscriptIndex (NSequence xs) i =
             Inl (NodeError (IndexOutOfBounds (scast i) (of_nat (length xs))))"
proof -
  have lo: "- (2 ^ 31) \<le> sint i" using sint_ge [of i] by simp
  have u: "unat (scast i :: 64 word) = nat (2 ^ 64 + sint i)"
    using assms(1) by (rule unat_scast_negative)
  have big: "(2::nat) ^ 63 \<le> unat (scast i :: 64 word)"
    unfolding u using lo by simp
  have len: "length xs < 2 ^ 64" using assms(2) by simp
  have "length xs \<le> unat (scast i :: 64 word)" using big assms(2) by simp
  then have "(scast i :: 64 word) \<ge> of_nat (length xs)"
    using len by (simp add: word_ge_of_nat_iff)
  then show ?thesis using big
    by (simp add: SubscriptIndex_def SubscriptOperator_Sequence)
qed

text \<open>C10, at the index \<open>- 1\<close> on a Sequence of one node.\<close>

theorem negative_index_faults_witness:
  "sint (- 1 :: 32 word) < 0 \<and> length [NNull] < (2::nat) ^ 63
   \<and> SubscriptIndex (NSequence [NNull]) (- 1) =
       Inl (NodeError (IndexOutOfBounds (- 1) 1))"
proof -
  have h1: "sint (- 1 :: 32 word) < 0" by simp
  have h2: "length [NNull] < (2::nat) ^ 63" by simp
  show ?thesis using h1 h2 negative_index_faults [OF h1 h2] by simp
qed

end
